theory Spec2Isabelle
  imports Main
begin

section \<open>Roles and HTTP exceptions\<close>

text \<open>
  The Prisma enum \<^verbatim>\<open>Role\<close> of the migration
  (\<^verbatim>\<open>CREATE TYPE "Role" AS ENUM ('SUPER_ADMIN', 'ADMIN', 'EDITOR', 'REPORTER', 'USER')\<close>).
  Every role that reaches the services is a member of this enum: the stored column has this
  type, the token payload copies the stored column, and the request bodies are validated
  with \<^verbatim>\<open>@IsEnum(Role)\<close>.
\<close>

datatype Role = SUPER_ADMIN | ADMIN | EDITOR | REPORTER | USER

fun roleName :: "Role \<Rightarrow> string" where
  "roleName SUPER_ADMIN = ''SUPER_ADMIN''"
| "roleName ADMIN = ''ADMIN''"
| "roleName EDITOR = ''EDITOR''"
| "roleName REPORTER = ''REPORTER''"
| "roleName USER = ''USER''"

text \<open>
  A message is a template literal: fixed text with interpolated numbers
  (\<^verbatim>\<open>`User with ID ${id} not found`\<close>).
\<close>

datatype part = Text string | Num int

type_synonym message = "part list"

text \<open>The NestJS exceptions the services throw, each with its message.\<close>

datatype HttpException =
    NotFoundException message
  | BadRequestException message
  | ConflictException message
  | ForbiddenException message
  | UnauthorizedException message

text \<open>The HTTP status NestJS attaches to each exception class.\<close>

fun getStatus :: "HttpException \<Rightarrow> nat" where
  "getStatus (NotFoundException m) = 404"
| "getStatus (BadRequestException m) = 400"
| "getStatus (ConflictException m) = 409"
| "getStatus (ForbiddenException m) = 403"
| "getStatus (UnauthorizedException m) = 401"

section \<open>Role hierarchy policy (UserService)\<close>

text \<open>
  The local constant \<^verbatim>\<open>roleHierarchy\<close> of
  \<^verbatim>\<open>UserService.validateRoleCreation\<close>: an object literal with one array per role.
\<close>

fun roleHierarchy :: "Role \<Rightarrow> Role list" where
  "roleHierarchy SUPER_ADMIN = [ADMIN, EDITOR, REPORTER, USER]"
| "roleHierarchy ADMIN = [EDITOR, REPORTER, USER]"
| "roleHierarchy EDITOR = [REPORTER, USER]"
| "roleHierarchy REPORTER = [USER]"
| "roleHierarchy USER = []"

text \<open>
  \<^verbatim>\<open>validateRoleCreation(requestingUserRole, targetRole)\<close>. The caller passes
  \<^verbatim>\<open>requestingUserRole || ''\<close>; the falsy value (no requesting role) is \<open>None\<close>.
  A thrown exception is \<open>Inl\<close>, a normal return \<open>Inr ()\<close>.
\<close>

definition validateRoleCreation :: "Role option \<Rightarrow> Role \<Rightarrow> HttpException + unit" where
  "validateRoleCreation requestingUserRole targetRole =
    (if targetRole = SUPER_ADMIN then
       Inl (ForbiddenException
              [Text ''SUPER_ADMIN cannot be created through regular user creation''])
     else
       (case requestingUserRole of
          None \<Rightarrow> Inr ()
        | Some r \<Rightarrow>
            if targetRole \<notin> set (roleHierarchy r) then
              Inl (ForbiddenException
                     [Text ''Insufficient permissions to create user with role: '',
                      Text (roleName targetRole), Text ''. Your role: '', Text (roleName r)])
            else Inr ()))"

text \<open>
  \<^verbatim>\<open>validateRoleUpdate(requestingUserRole, existingUserRole, targetRole, targetUserId,
  requestingUserId)\<close>: four guards in the order of the source.
\<close>

definition validateRoleUpdate ::
  "Role \<Rightarrow> Role \<Rightarrow> Role \<Rightarrow> int \<Rightarrow> int \<Rightarrow> HttpException + unit" where
  "validateRoleUpdate requestingUserRole existingUserRole targetRole targetUserId requestingUserId =
    (if targetRole = SUPER_ADMIN then
       Inl (ForbiddenException [Text ''Cannot update user to SUPER_ADMIN role''])
     else if requestingUserRole \<noteq> SUPER_ADMIN then
       Inl (ForbiddenException [Text ''Only SUPER_ADMIN can change user roles''])
     else if existingUserRole = SUPER_ADMIN then
       Inl (ForbiddenException [Text ''Cannot modify SUPER_ADMIN role''])
     else if targetUserId = requestingUserId then
       Inl (ForbiddenException [Text ''You cannot change your own role''])
     else Inr ())"

section \<open>Stored data\<close>

text \<open>
  The tables of the migration, one record per row. The timestamp columns
  (\<^verbatim>\<open>createdAt\<close>, \<^verbatim>\<open>updatedAt\<close>, \<^verbatim>\<open>issueDate\<close>) depend on the wall
  clock and are left out; no check of the services reads them. Field names are those of
  the columns, except \<open>commentText\<close> for the column \<^verbatim>\<open>text\<close> of a comment.
\<close>

record User =
  id :: int
  email :: string
  password :: string
  fullName :: string
  avatar :: "string option"
  role :: Role

record Category =
  id :: int
  nameUz :: string
  nameRu :: "string option"
  slug :: string

record Newspaper =
  id :: int
  title :: string
  pdfUrl :: string
  coverImage :: "string option"

record Article =
  id :: int
  titleUz :: string
  titleRu :: "string option"
  contentUz :: string
  contentRu :: "string option"
  slug :: string
  thumbnail :: "string option"
  viewCount :: int
  isPublished :: bool
  categoryId :: int
  authorId :: int
  newspaperId :: "int option"

record Comment =
  id :: int
  commentText :: string
  userId :: int
  articleId :: int

text \<open>
  The database: the rows of each table in insertion order, and the next value of the
  \<^verbatim>\<open>SERIAL\<close> sequence of the user table.
\<close>

record Database =
  users :: "User list"
  categories :: "Category list"
  newspapers :: "Newspaper list"
  articles :: "Article list"
  comments :: "Comment list"
  userSeq :: int

text \<open>
  The request errors of the Prisma client that the schema can cause:
  \<^verbatim>\<open>P2002\<close> (unique constraint, with \<^verbatim>\<open>meta.target\<close>),
  \<^verbatim>\<open>P2003\<close> (foreign key, with \<^verbatim>\<open>meta.field_name\<close>) and
  \<^verbatim>\<open>P2025\<close> (record not found).
\<close>

datatype PrismaError = P2002 "string option" | P2003 "string option" | P2025

section \<open>The Prisma client over the schema\<close>

text \<open>
  The client calls the services make, with the constraints of the migration: the unique
  indexes on \<^verbatim>\<open>User.email\<close> and \<^verbatim>\<open>Article.slug\<close>, and the foreign keys
  with their \<^verbatim>\<open>ON DELETE\<close> actions (an article restricts the deletion of its
  author; comments are deleted with their user and with their article).
\<close>

definition prisma_user_findUnique_id :: "Database \<Rightarrow> int \<Rightarrow> User option" where
  "prisma_user_findUnique_id db i = find (\<lambda>u. User.id u = i) (users db)"

definition prisma_user_findUnique_email :: "Database \<Rightarrow> string \<Rightarrow> User option" where
  "prisma_user_findUnique_email db e = find (\<lambda>u. User.email u = e) (users db)"

definition prisma_article_findUnique :: "Database \<Rightarrow> int \<Rightarrow> Article option" where
  "prisma_article_findUnique db i = find (\<lambda>a. Article.id a = i) (articles db)"

definition prisma_comment_findUnique :: "Database \<Rightarrow> int \<Rightarrow> Comment option" where
  "prisma_comment_findUnique db i = find (\<lambda>c. Comment.id c = i) (comments db)"

definition prisma_category_findUnique :: "Database \<Rightarrow> int \<Rightarrow> Category option" where
  "prisma_category_findUnique db i = find (\<lambda>c. Category.id c = i) (categories db)"

definition prisma_newspaper_findUnique :: "Database \<Rightarrow> int \<Rightarrow> Newspaper option" where
  "prisma_newspaper_findUnique db i = find (\<lambda>n. Newspaper.id n = i) (newspapers db)"

text \<open>The \<^verbatim>\<open>data\<close> argument of \<^verbatim>\<open>prisma.user.create\<close>.\<close>

record UserCreateInput =
  email :: string
  password :: string
  fullName :: string
  avatar :: "string option"
  role :: Role

definition prisma_user_create :: "Database \<Rightarrow> UserCreateInput \<Rightarrow> PrismaError + (User \<times> Database)" where
  "prisma_user_create db d =
    (if list_ex (\<lambda>u. User.email u = UserCreateInput.email d) (users db) then
       Inl (P2002 (Some ''email''))
     else
       (let u = \<lparr> User.id = userSeq db,
                  User.email = UserCreateInput.email d,
                  User.password = UserCreateInput.password d,
                  User.fullName = UserCreateInput.fullName d,
                  User.avatar = UserCreateInput.avatar d,
                  User.role = UserCreateInput.role d \<rparr>
        in Inr (u, db\<lparr> users := users db @ [u], userSeq := userSeq db + 1 \<rparr>)))"

text \<open>
  The \<^verbatim>\<open>data\<close> argument of \<^verbatim>\<open>prisma.user.update\<close>: a field that is
  \<^verbatim>\<open>undefined\<close> (\<open>None\<close>) is left as it is. It is also the shape of the body of
  \<^verbatim>\<open>UserService.update\<close>: the class \<^verbatim>\<open>UpdateUserDto\<close> is imported from
  \<^verbatim>\<open>./dto/update-user.dto\<close>, a file that is not among the sources, and is taken to
  offer every field of \<^verbatim>\<open>CreateUserDto\<close>, each optional. The service itself reads
  \<^verbatim>\<open>role\<close>, \<^verbatim>\<open>password\<close> and \<^verbatim>\<open>avatar\<close>.
\<close>

record UserUpdateInput =
  email :: "string option"
  password :: "string option"
  fullName :: "string option"
  avatar :: "string option"
  role :: "Role option"

definition orElse :: "'a option \<Rightarrow> 'a \<Rightarrow> 'a" where
  "orElse x d = (case x of None \<Rightarrow> d | Some v \<Rightarrow> v)"

definition applyUserUpdate :: "UserUpdateInput \<Rightarrow> User \<Rightarrow> User" where
  "applyUserUpdate d u =
    u\<lparr> User.email := orElse (UserUpdateInput.email d) (User.email u),
       User.password := orElse (UserUpdateInput.password d) (User.password u),
       User.fullName := orElse (UserUpdateInput.fullName d) (User.fullName u),
       User.avatar := (case UserUpdateInput.avatar d of None \<Rightarrow> User.avatar u | Some a \<Rightarrow> Some a),
       User.role := orElse (UserUpdateInput.role d) (User.role u) \<rparr>"

definition prisma_user_update ::
  "Database \<Rightarrow> int \<Rightarrow> UserUpdateInput \<Rightarrow> PrismaError + (User \<times> Database)" where
  "prisma_user_update db i d =
    (case prisma_user_findUnique_id db i of
       None \<Rightarrow> Inl P2025
     | Some u \<Rightarrow>
         (let u' = applyUserUpdate d u in
          if list_ex (\<lambda>v. User.id v \<noteq> i \<and> User.email v = User.email u') (users db) then
            Inl (P2002 (Some ''email''))
          else
            Inr (u', db\<lparr> users := map (\<lambda>v. if User.id v = i then u' else v) (users db) \<rparr>)))"


text \<open>
  The \<^verbatim>\<open>data\<close> argument of \<^verbatim>\<open>prisma.article.update\<close>, which is the request
  body. The class \<^verbatim>\<open>UpdateArticleDto\<close> is imported from
  \<^verbatim>\<open>./dto/update-article.dto\<close>, a file that is not among the sources; the body is
  taken to offer every field of \<^verbatim>\<open>CreateArticleDto\<close>, each optional. The service
  itself reads \<^verbatim>\<open>categoryId\<close> and \<^verbatim>\<open>newspaperId\<close> only.
\<close>

record UpdateArticleDto =
  titleUz :: "string option"
  titleRu :: "string option"
  contentUz :: "string option"
  contentRu :: "string option"
  slug :: "string option"
  thumbnail :: "string option"
  categoryId :: "int option"
  authorId :: "int option"
  isPublished :: "bool option"
  newspaperId :: "int option"

definition applyArticleUpdate :: "UpdateArticleDto \<Rightarrow> Article \<Rightarrow> Article" where
  "applyArticleUpdate d a =
    a\<lparr> Article.titleUz := orElse (UpdateArticleDto.titleUz d) (Article.titleUz a),
       Article.titleRu :=
         (case UpdateArticleDto.titleRu d of None \<Rightarrow> Article.titleRu a | Some t \<Rightarrow> Some t),
       Article.contentUz := orElse (UpdateArticleDto.contentUz d) (Article.contentUz a),
       Article.contentRu :=
         (case UpdateArticleDto.contentRu d of None \<Rightarrow> Article.contentRu a | Some t \<Rightarrow> Some t),
       Article.slug := orElse (UpdateArticleDto.slug d) (Article.slug a),
       Article.thumbnail :=
         (case UpdateArticleDto.thumbnail d of None \<Rightarrow> Article.thumbnail a | Some t \<Rightarrow> Some t),
       Article.isPublished := orElse (UpdateArticleDto.isPublished d) (Article.isPublished a),
       Article.categoryId := orElse (UpdateArticleDto.categoryId d) (Article.categoryId a),
       Article.authorId := orElse (UpdateArticleDto.authorId d) (Article.authorId a),
       Article.newspaperId :=
         (case UpdateArticleDto.newspaperId d of None \<Rightarrow> Article.newspaperId a | Some n \<Rightarrow> Some n) \<rparr>"

text \<open>A foreign key column that the update sets must point at an existing row.\<close>

definition dangling :: "(int \<Rightarrow> 'a option) \<Rightarrow> int option \<Rightarrow> bool" where
  "dangling lookup ref = (case ref of None \<Rightarrow> False | Some i \<Rightarrow> lookup i = None)"

definition prisma_article_update ::
  "Database \<Rightarrow> int \<Rightarrow> UpdateArticleDto \<Rightarrow> PrismaError + (Article \<times> Database)" where
  "prisma_article_update db i d =
    (case prisma_article_findUnique db i of
       None \<Rightarrow> Inl P2025
     | Some a \<Rightarrow>
         (let a' = applyArticleUpdate d a in
          if list_ex (\<lambda>b. Article.id b \<noteq> i \<and> Article.slug b = Article.slug a') (articles db) then
            Inl (P2002 (Some ''slug''))
          else if dangling (prisma_category_findUnique db) (UpdateArticleDto.categoryId d) then
            Inl (P2003 (Some ''Article_categoryId_fkey (index)''))
          else if dangling (prisma_user_findUnique_id db) (UpdateArticleDto.authorId d) then
            Inl (P2003 (Some ''Article_authorId_fkey (index)''))
          else if dangling (prisma_newspaper_findUnique db) (UpdateArticleDto.newspaperId d) then
            Inl (P2003 (Some ''Article_newspaperId_fkey (index)''))
          else
            Inr (a', db\<lparr> articles := map (\<lambda>b. if Article.id b = i then a' else b) (articles db) \<rparr>)))"

definition prisma_article_delete :: "Database \<Rightarrow> int \<Rightarrow> PrismaError + Database" where
  "prisma_article_delete db i =
    (case prisma_article_findUnique db i of
       None \<Rightarrow> Inl P2025
     | Some a \<Rightarrow>
         Inr (db\<lparr> articles := filter (\<lambda>b. Article.id b \<noteq> i) (articles db),
                  comments := filter (\<lambda>c. Comment.articleId c \<noteq> i) (comments db) \<rparr>))"

text \<open>
  The \<^verbatim>\<open>data\<close> argument of \<^verbatim>\<open>prisma.comment.update\<close>, which is the request
  body. The class \<^verbatim>\<open>UpdateCommentDto\<close> is imported from
  \<^verbatim>\<open>./dto/update-comment.dto\<close>, a file that is not among the sources; the body is
  taken to offer the two fields of \<^verbatim>\<open>CreateCommentDto\<close>, each optional. The service
  reads none of them.
\<close>

record UpdateCommentDto =
  commentText :: "string option"
  articleId :: "int option"

definition applyCommentUpdate :: "UpdateCommentDto \<Rightarrow> Comment \<Rightarrow> Comment" where
  "applyCommentUpdate d c =
    c\<lparr> Comment.commentText := orElse (UpdateCommentDto.commentText d) (Comment.commentText c),
       Comment.articleId := orElse (UpdateCommentDto.articleId d) (Comment.articleId c) \<rparr>"

definition prisma_comment_update ::
  "Database \<Rightarrow> int \<Rightarrow> UpdateCommentDto \<Rightarrow> PrismaError + (Comment \<times> Database)" where
  "prisma_comment_update db i d =
    (case prisma_comment_findUnique db i of
       None \<Rightarrow> Inl P2025
     | Some c \<Rightarrow>
         (let c' = applyCommentUpdate d c in
          if dangling (prisma_article_findUnique db) (UpdateCommentDto.articleId d) then
            Inl (P2003 (Some ''Comment_articleId_fkey (index)''))
          else
            Inr (c', db\<lparr> comments := map (\<lambda>b. if Comment.id b = i then c' else b) (comments db) \<rparr>)))"

definition prisma_comment_delete :: "Database \<Rightarrow> int \<Rightarrow> PrismaError + Database" where
  "prisma_comment_delete db i =
    (case prisma_comment_findUnique db i of
       None \<Rightarrow> Inl P2025
     | Some c \<Rightarrow> Inr (db\<lparr> comments := filter (\<lambda>b. Comment.id b \<noteq> i) (comments db) \<rparr>))"

section \<open>Shared helpers of the services\<close>

text \<open>
  JavaScript truthiness of an optional string and of an optional number, as the services
  test them (\<^verbatim>\<open>if (updateUserDto.password)\<close>, \<^verbatim>\<open>if (updateArticleDto.categoryId)\<close>):
  \<^verbatim>\<open>undefined\<close>, the empty string and \<^verbatim>\<open>0\<close> are falsy.
\<close>

definition truthyString :: "string option \<Rightarrow> bool" where
  "truthyString x = (case x of None \<Rightarrow> False | Some s \<Rightarrow> s \<noteq> [])"

definition truthyNumber :: "int option \<Rightarrow> bool" where
  "truthyNumber x = (case x of None \<Rightarrow> False | Some n \<Rightarrow> n \<noteq> 0)"

text \<open>The two fields of the Express request that \<^verbatim>\<open>constructAbsoluteUrl\<close> reads.\<close>

record Request =
  protocol :: string
  host :: string

definition constructAbsoluteUrl :: "string \<Rightarrow> Request option \<Rightarrow> string" where
  "constructAbsoluteUrl relativePath req =
    (case req of
       None \<Rightarrow> ''http://localhost:3000'' @ relativePath
     | Some r \<Rightarrow> protocol r @ ''://'' @ host r @ relativePath)"

text \<open>
  A service call returns the exception it threw or its result, together with the database
  it leaves behind.
\<close>

type_synonym 'a outcome = "(HttpException + 'a) \<times> Database"

text \<open>
  The \<^verbatim>\<open>catch\<close> block every service method ends with: a known Prisma error becomes
  an HTTP exception (the text before \<^verbatim>\<open>meta.target\<close> differs between methods and
  is the first argument); the exceptions thrown inside the \<^verbatim>\<open>try\<close> are rethrown
  as they are.
\<close>

fun catchPrisma :: "string \<Rightarrow> PrismaError \<Rightarrow> HttpException" where
  "catchPrisma what (P2002 target) =
     ConflictException [Text what, Text (orElse target ''Record'')]"
| "catchPrisma what (P2003 field_name) =
     BadRequestException [Text ''Foreign key constraint failed: '', Text (orElse field_name ''Field'')]"
| "catchPrisma what P2025 = NotFoundException [Text ''Record not found'']"

text \<open>
  \<^verbatim>\<open>PrismaExceptionFilter.catch\<close>, the global filter that answers a Prisma error no
  service caught: the status and the message of the response.
\<close>

fun PrismaExceptionFilter :: "PrismaError \<Rightarrow> HttpException" where
  "PrismaExceptionFilter (P2002 target) =
     ConflictException [Text ''Unique constraint violation: '', Text (orElse target ''Record'')]"
| "PrismaExceptionFilter (P2003 field_name) =
     BadRequestException [Text ''Foreign key constraint failed: '', Text (orElse field_name ''Field'')]"
| "PrismaExceptionFilter P2025 = NotFoundException [Text ''Record not found'']"

section \<open>ArticleService\<close>

text \<open>
  \<^verbatim>\<open>ArticleService.update(id, updateArticleDto, requestingUserId, requestingUserRole, req)\<close>.
  The relations the result includes (category, author, newspaper) are left out of the
  returned row.
\<close>

definition ArticleService_update ::
  "Database \<Rightarrow> int \<Rightarrow> UpdateArticleDto \<Rightarrow> int \<Rightarrow> Role \<Rightarrow> Request option \<Rightarrow> Article outcome" where
  "ArticleService_update db i updateArticleDto requestingUserId requestingUserRole req =
    (case prisma_article_findUnique db i of
       None \<Rightarrow>
         (Inl (NotFoundException [Text ''Article with ID '', Num i, Text '' not found'']), db)
     | Some existingArticle \<Rightarrow>
         if requestingUserRole \<noteq> SUPER_ADMIN \<and>
            requestingUserRole \<noteq> ADMIN \<and>
            requestingUserRole \<noteq> EDITOR \<and>
            Article.authorId existingArticle \<noteq> requestingUserId
         then (Inl (BadRequestException [Text ''You can only update your own articles'']), db)
         else if truthyNumber (UpdateArticleDto.categoryId updateArticleDto) \<and>
                 dangling (prisma_category_findUnique db) (UpdateArticleDto.categoryId updateArticleDto)
         then (Inl (NotFoundException
                      [Text ''Category with ID '',
                       Num (orElse (UpdateArticleDto.categoryId updateArticleDto) 0),
                       Text '' not found'']), db)
         else if truthyNumber (UpdateArticleDto.newspaperId updateArticleDto) \<and>
                 dangling (prisma_newspaper_findUnique db) (UpdateArticleDto.newspaperId updateArticleDto)
         then (Inl (NotFoundException
                      [Text ''Newspaper with ID '',
                       Num (orElse (UpdateArticleDto.newspaperId updateArticleDto) 0),
                       Text '' not found'']), db)
         else
           (case prisma_article_update db i updateArticleDto of
              Inl e \<Rightarrow> (Inl (catchPrisma ''Article with this slug already exists: '' e), db)
            | Inr (article, db') \<Rightarrow>
                (Inr (article\<lparr> Article.thumbnail :=
                        (if truthyString (Article.thumbnail article)
                         then Some (constructAbsoluteUrl (orElse (Article.thumbnail article) []) req)
                         else None) \<rparr>), db')))"

text \<open>\<^verbatim>\<open>ArticleService.remove(id, requestingUserId, requestingUserRole)\<close>.\<close>

definition ArticleService_remove :: "Database \<Rightarrow> int \<Rightarrow> int \<Rightarrow> Role \<Rightarrow> string outcome" where
  "ArticleService_remove db i requestingUserId requestingUserRole =
    (case prisma_article_findUnique db i of
       None \<Rightarrow>
         (Inl (NotFoundException [Text ''Article with ID '', Num i, Text '' not found'']), db)
     | Some existingArticle \<Rightarrow>
         if requestingUserRole \<noteq> SUPER_ADMIN \<and>
            requestingUserRole \<noteq> ADMIN \<and>
            requestingUserRole \<noteq> EDITOR \<and>
            Article.authorId existingArticle \<noteq> requestingUserId
         then (Inl (BadRequestException [Text ''You can only delete your own articles'']), db)
         else
           (case prisma_article_delete db i of
              Inl e \<Rightarrow> (Inl (catchPrisma ''Article already exists: '' e), db)
            | Inr db' \<Rightarrow> (Inr ''Article deleted successfully'', db')))"

section \<open>CommentService\<close>

text \<open>
  \<^verbatim>\<open>CommentService.update(id, userId, updateCommentDto)\<close>. The role of a caller who is
  not the comment's owner is read from the user table, not passed in.
\<close>

definition CommentService_update ::
  "Database \<Rightarrow> int \<Rightarrow> int \<Rightarrow> UpdateCommentDto \<Rightarrow> Comment outcome" where
  "CommentService_update db i userId' updateCommentDto =
    (case prisma_comment_findUnique db i of
       None \<Rightarrow>
         (Inl (NotFoundException [Text ''Comment with ID '', Num i, Text '' not found'']), db)
     | Some comment \<Rightarrow>
         if Comment.userId comment \<noteq> userId' \<and>
            (case prisma_user_findUnique_id db userId' of
               None \<Rightarrow> True
             | Some user \<Rightarrow>
                 User.role user \<noteq> ADMIN \<and> User.role user \<noteq> EDITOR \<and>
                 User.role user \<noteq> SUPER_ADMIN)
         then (Inl (ForbiddenException [Text ''You can only update your own comments'']), db)
         else
           (case prisma_comment_update db i updateCommentDto of
              Inl e \<Rightarrow> (Inl (catchPrisma ''Comment already exists: '' e), db)
            | Inr (updatedComment, db') \<Rightarrow> (Inr updatedComment, db')))"

text \<open>
  \<^verbatim>\<open>CommentService.remove(id, userId, userRole)\<close>. The first branch returns early for
  a caller whose passed role is \<^verbatim>\<open>SUPER_ADMIN\<close>; the second reads the stored role.
\<close>

definition CommentService_remove :: "Database \<Rightarrow> int \<Rightarrow> int \<Rightarrow> Role \<Rightarrow> string outcome" where
  "CommentService_remove db i userId' userRole =
    (case prisma_comment_findUnique db i of
       None \<Rightarrow>
         (Inl (NotFoundException [Text ''Comment with ID '', Num i, Text '' not found'']), db)
     | Some comment \<Rightarrow>
         if userRole = SUPER_ADMIN then
           (case prisma_comment_delete db i of
              Inl e \<Rightarrow> (Inl (catchPrisma ''Comment already exists: '' e), db)
            | Inr db' \<Rightarrow> (Inr ''Comment deleted successfully'', db'))
         else if Comment.userId comment \<noteq> userId' \<and>
            (case prisma_user_findUnique_id db userId' of
               None \<Rightarrow> True
             | Some user \<Rightarrow> User.role user \<noteq> ADMIN \<and> User.role user \<noteq> EDITOR)
         then (Inl (ForbiddenException [Text ''You can only delete your own comments'']), db)
         else
           (case prisma_comment_delete db i of
              Inl e \<Rightarrow> (Inl (catchPrisma ''Comment already exists: '' e), db)
            | Inr db' \<Rightarrow> (Inr ''Comment deleted successfully'', db')))"

text \<open>
  The three mutating routes of \<^verbatim>\<open>CommentController\<close>. \<open>RequestUser\<close> is the object
  \<^verbatim>\<open>@GetUser()\<close> yields, of which the routes read \<^verbatim>\<open>id\<close> and \<^verbatim>\<open>role\<close>.
  \<^verbatim>\<open>removeOwn\<close> (\<^verbatim>\<open>DELETE comments/own/:id\<close>) passes the literal
  \<^verbatim>\<open>'USER'\<close> as the role, whatever the role of the caller is.
\<close>

record RequestUser =
  id :: int
  role :: Role

definition CommentController_update ::
  "Database \<Rightarrow> int \<Rightarrow> UpdateCommentDto \<Rightarrow> RequestUser \<Rightarrow> Comment outcome" where
  "CommentController_update db i updateCommentDto caller =
    CommentService_update db i (RequestUser.id caller) updateCommentDto"

definition CommentController_remove :: "Database \<Rightarrow> int \<Rightarrow> RequestUser \<Rightarrow> string outcome" where
  "CommentController_remove db i caller =
    CommentService_remove db i (RequestUser.id caller) (RequestUser.role caller)"

definition CommentController_removeOwn :: "Database \<Rightarrow> int \<Rightarrow> RequestUser \<Rightarrow> string outcome" where
  "CommentController_removeOwn db i caller =
    CommentService_remove db i (RequestUser.id caller) USER"

section \<open>UserService\<close>

text \<open>
  The \<^verbatim>\<open>select\<close> of the user queries and the destructuring
  \<^verbatim>\<open>const { password: _, ...result } = user\<close>: a user row without its password.
\<close>

record UserView =
  id :: int
  email :: string
  fullName :: string
  role :: Role
  avatar :: "string option"

definition withoutPassword :: "User \<Rightarrow> UserView" where
  "withoutPassword u =
    \<lparr> UserView.id = User.id u,
      UserView.email = User.email u,
      UserView.fullName = User.fullName u,
      UserView.role = User.role u,
      UserView.avatar = User.avatar u \<rparr>"

text \<open>
  \<^verbatim>\<open>UserService.create(createUserDto, requestingUserId, requestingUserRole)\<close>. The body
  validated as \<^verbatim>\<open>CreateUserDto\<close> has the fields of the creation input.
  \<open>hash\<close> stands for \<^verbatim>\<open>bcrypt.hash(_, 10)\<close>.
\<close>

definition UserService_create ::
  "(string \<Rightarrow> string) \<Rightarrow> Database \<Rightarrow> UserCreateInput \<Rightarrow> int option \<Rightarrow> Role option
   \<Rightarrow> UserView outcome" where
  "UserService_create hash db createUserDto requestingUserId requestingUserRole =
    (case validateRoleCreation requestingUserRole (UserCreateInput.role createUserDto) of
       Inl e \<Rightarrow> (Inl e, db)
     | Inr _ \<Rightarrow>
         (case prisma_user_create db
                 (createUserDto\<lparr> UserCreateInput.password :=
                                   hash (UserCreateInput.password createUserDto) \<rparr>) of
            Inl e \<Rightarrow> (Inl (catchPrisma ''User already exists: '' e), db)
          | Inr (created, db') \<Rightarrow> (Inr (withoutPassword created), db')))"

text \<open>
  \<^verbatim>\<open>UserService.update(id, updateUserDto, requestingUserId, requestingUserRole, req)\<close>.
\<close>

definition UserService_update ::
  "(string \<Rightarrow> string) \<Rightarrow> Database \<Rightarrow> int \<Rightarrow> UserUpdateInput \<Rightarrow> int \<Rightarrow> Role
   \<Rightarrow> Request option \<Rightarrow> UserView outcome" where
  "UserService_update hash db i updateUserDto requestingUserId requestingUserRole req =
    (case prisma_user_findUnique_id db i of
       None \<Rightarrow> (Inl (NotFoundException [Text ''User with ID '', Num i, Text '' not found'']), db)
     | Some existingUser \<Rightarrow>
         if User.role existingUser = SUPER_ADMIN \<and> requestingUserRole \<noteq> SUPER_ADMIN then
           (Inl (ForbiddenException [Text ''Cannot modify SUPER_ADMIN user'']), db)
         else
           (case (case UserUpdateInput.role updateUserDto of
                    None \<Rightarrow> Inr ()
                  | Some r \<Rightarrow>
                      if r \<noteq> User.role existingUser then
                        validateRoleUpdate requestingUserRole (User.role existingUser) r
                          i requestingUserId
                      else Inr ()) of
              Inl e \<Rightarrow> (Inl e, db)
            | Inr _ \<Rightarrow>
                if i = requestingUserId \<and> UserUpdateInput.role updateUserDto \<noteq> None then
                  (Inl (ForbiddenException [Text ''You cannot change your own role'']), db)
                else
                  (let updatedData =
                         updateUserDto\<lparr>
                           UserUpdateInput.password :=
                             (if truthyString (UserUpdateInput.password updateUserDto)
                              then Some (hash (orElse (UserUpdateInput.password updateUserDto) []))
                              else UserUpdateInput.password updateUserDto),
                           UserUpdateInput.avatar :=
                             (if truthyString (UserUpdateInput.avatar updateUserDto)
                              then Some (constructAbsoluteUrl
                                           (orElse (UserUpdateInput.avatar updateUserDto) []) req)
                              else UserUpdateInput.avatar updateUserDto) \<rparr>
                   in case prisma_user_update db i updatedData of
                        Inl e \<Rightarrow> (Inl (catchPrisma ''User already exists: '' e), db)
                      | Inr (updatedUser, db') \<Rightarrow> (Inr (withoutPassword updatedUser), db'))))"


section \<open>AuthService\<close>

text \<open>The bodies of the two public endpoints.\<close>

record RegisterDto =
  email :: string
  fullName :: string
  password :: string
  avatar :: "string option"
  role :: "Role option"

record LoginDto =
  email :: string
  password :: string

text \<open>The payload the service signs: \<^verbatim>\<open>{ sub: user.id, email: user.email, role: user.role }\<close>.\<close>

record JwtPayload =
  sub :: int
  email :: string
  role :: Role

record 'token AuthResult =
  user :: UserView
  access_token :: 'token

text \<open>
  \<^verbatim>\<open>AuthService.register(registerDto)\<close>. \<open>hashPassword\<close> is the bcrypt helper and
  \<open>sign\<close> is \<^verbatim>\<open>jwtService.sign\<close>. The method has no \<^verbatim>\<open>catch\<close> block: a Prisma
  error reaches the global filter.
\<close>

definition AuthService_register ::
  "(string \<Rightarrow> string) \<Rightarrow> (JwtPayload \<Rightarrow> 'token) \<Rightarrow> Database \<Rightarrow> RegisterDto
   \<Rightarrow> 'token AuthResult outcome" where
  "AuthService_register hashPassword sign db registerDto =
    (case prisma_user_findUnique_email db (RegisterDto.email registerDto) of
       Some existingUser \<Rightarrow>
         (Inl (ConflictException [Text ''User with this email already exists'']), db)
     | None \<Rightarrow>
         if RegisterDto.role registerDto = Some SUPER_ADMIN then
           (Inl (ForbiddenException [Text ''Cannot register with SUPER_ADMIN role'']), db)
         else
           (case prisma_user_create db
                   \<lparr> UserCreateInput.email = RegisterDto.email registerDto,
                     UserCreateInput.password = hashPassword (RegisterDto.password registerDto),
                     UserCreateInput.fullName = RegisterDto.fullName registerDto,
                     UserCreateInput.avatar = RegisterDto.avatar registerDto,
                     UserCreateInput.role = orElse (RegisterDto.role registerDto) USER \<rparr> of
              Inl e \<Rightarrow> (Inl (PrismaExceptionFilter e), db)
            | Inr (created, db') \<Rightarrow>
                (let payload = \<lparr> JwtPayload.sub = User.id created,
                                 JwtPayload.email = User.email created,
                                 JwtPayload.role = User.role created \<rparr>;
                     accessToken = sign payload
                 in (Inr \<lparr> user = withoutPassword created, access_token = accessToken \<rparr>, db'))))"

text \<open>
  \<^verbatim>\<open>AuthService.login(loginDto)\<close>. \<open>compare\<close> is \<^verbatim>\<open>bcrypt.compare\<close> on the
  submitted password and the stored hash. The method writes nothing.
\<close>

definition AuthService_login ::
  "(string \<Rightarrow> string \<Rightarrow> bool) \<Rightarrow> (JwtPayload \<Rightarrow> 'token) \<Rightarrow> Database \<Rightarrow> LoginDto
   \<Rightarrow> 'token AuthResult outcome" where
  "AuthService_login compare sign db loginDto =
    (case prisma_user_findUnique_email db (LoginDto.email loginDto) of
       None \<Rightarrow> (Inl (UnauthorizedException [Text ''Invalid credentials'']), db)
     | Some found \<Rightarrow>
         if \<not> compare (LoginDto.password loginDto) (User.password found) then
           (Inl (UnauthorizedException [Text ''Invalid credentials'']), db)
         else
           (let payload = \<lparr> JwtPayload.sub = User.id found,
                            JwtPayload.email = User.email found,
                            JwtPayload.role = User.role found \<rparr>;
                accessToken = sign payload
            in (Inr \<lparr> user = withoutPassword found, access_token = accessToken \<rparr>, db)))"

section \<open>Token issuance and verification\<close>

text \<open>
  The options the factory of \<^verbatim>\<open>JwtModule.registerAsync\<close> builds from the
  configuration: \<^verbatim>\<open>configService.get('JWT_SECRET') || 'defaultSecretKey'\<close> and
  \<^verbatim>\<open>configService.get('JWT_EXPIRES_IN') || '60m'\<close>.
\<close>

record JwtModuleOptions =
  secret :: string
  expiresIn :: string

definition useFactory :: "(string \<Rightarrow> string option) \<Rightarrow> JwtModuleOptions" where
  "useFactory configService_get =
    \<lparr> secret =
        (if truthyString (configService_get ''JWT_SECRET'')
         then orElse (configService_get ''JWT_SECRET'') [] else ''defaultSecretKey''),
      expiresIn =
        (if truthyString (configService_get ''JWT_EXPIRES_IN'')
         then orElse (configService_get ''JWT_EXPIRES_IN'') [] else ''60m'') \<rparr>"

text \<open>
  Modelled from the spec: the Token Service. Signing is done by the JWT library behind
  \<^verbatim>\<open>jwtService.sign\<close> and verification by the repository's \<^verbatim>\<open>JwtStrategy\<close> and
  \<^verbatim>\<open>JwtAuthGuard\<close>, none of which is among the source files. The spec's token is
  \<^verbatim>\<open>{subject-id, role, issued-at, expires-at, signature}\<close>: the claim set, the issue
  time, the expiry (the issue time plus a fixed offset) and a signature under the server's
  secret. The claim set here is the payload the service builds. The signature algorithm
  \<open>mac\<close> and the reading \<open>seconds\<close> of the configured span (\<^verbatim>\<open>'60m'\<close>) are
  parameters.
\<close>

record 'sig AuthToken =
  payload :: JwtPayload
  issued_at :: nat
  expires_at :: nat
  signature :: 'sig

datatype AuthError = InvalidToken | ExpiredToken

record IdentityClaim =
  sub :: int
  role :: Role

text \<open>
  Modelled from the spec: \<^verbatim>\<open>issue(subject-id, role) -> token\<close>, the claim set signed
  with the server-held secret, with a fixed expiry offset from the issuance time.
\<close>

definition TokenService_issue ::
  "(string \<Rightarrow> JwtPayload \<times> nat \<times> nat \<Rightarrow> 'sig) \<Rightarrow> (string \<Rightarrow> nat) \<Rightarrow> JwtModuleOptions \<Rightarrow> nat
   \<Rightarrow> JwtPayload \<Rightarrow> 'sig AuthToken" where
  "TokenService_issue mac seconds options now claims =
    \<lparr> payload = claims,
      issued_at = now,
      expires_at = now + seconds (expiresIn options),
      signature = mac (secret options) (claims, now, now + seconds (expiresIn options)) \<rparr>"

text \<open>
  Modelled from the spec: \<^verbatim>\<open>verify(token) -> identity-claim | AuthError\<close>, which fails
  with \<^verbatim>\<open>InvalidToken\<close> when the signature does not match and with
  \<^verbatim>\<open>ExpiredToken\<close> when the current time exceeds the embedded expiry.
\<close>

definition TokenService_verify ::
  "(string \<Rightarrow> JwtPayload \<times> nat \<times> nat \<Rightarrow> 'sig) \<Rightarrow> JwtModuleOptions \<Rightarrow> nat \<Rightarrow> 'sig AuthToken
   \<Rightarrow> AuthError + IdentityClaim" where
  "TokenService_verify mac options now token =
    (if signature token \<noteq>
          mac (secret options) (payload token, issued_at token, expires_at token) then
       Inl InvalidToken
     else if now > expires_at token then Inl ExpiredToken
     else Inr \<lparr> IdentityClaim.sub = JwtPayload.sub (payload token),
                IdentityClaim.role = JwtPayload.role (payload token) \<rparr>)"

section \<open>Vocabulary of the properties\<close>

text \<open>
  The hierarchy table as the specification prints it, to be compared with
  \<open>roleHierarchy\<close>: its row for \<^verbatim>\<open>REPORTER\<close> is empty.
\<close>

fun specHierarchy :: "Role \<Rightarrow> Role list" where
  "specHierarchy SUPER_ADMIN = [ADMIN, EDITOR, REPORTER, USER]"
| "specHierarchy ADMIN = [EDITOR, REPORTER, USER]"
| "specHierarchy EDITOR = [REPORTER, USER]"
| "specHierarchy REPORTER = []"
| "specHierarchy USER = []"

text \<open>
  A call is denied as forbidden when it ends in a \<^verbatim>\<open>ForbiddenException\<close> (status 403)
  and leaves the database as it found it.
\<close>

definition forbidden :: "'a outcome \<Rightarrow> Database \<Rightarrow> bool" where
  "forbidden out db =
    (case fst out of
       Inl (ForbiddenException m) \<Rightarrow> snd out = db
     | _ \<Rightarrow> False)"

text \<open>A small database for the concrete instances below.\<close>

definition mkUser :: "int \<Rightarrow> string \<Rightarrow> Role \<Rightarrow> User" where
  "mkUser i e r =
    \<lparr> User.id = i, User.email = e, User.password = ''$2b$10$stored'',
      User.fullName = ''Some One'', User.avatar = None, User.role = r \<rparr>"

definition sampleArticle :: Article where
  "sampleArticle =
    \<lparr> Article.id = 1, Article.titleUz = ''Yangilik'', Article.titleRu = None,
      Article.contentUz = ''Matn'', Article.contentRu = None, Article.slug = ''yangilik'',
      Article.thumbnail = None, Article.viewCount = 0, Article.isPublished = True,
      Article.categoryId = 1, Article.authorId = 4, Article.newspaperId = None \<rparr>"

definition sampleComment :: Comment where
  "sampleComment =
    \<lparr> Comment.id = 1, Comment.commentText = ''Foydali'', Comment.userId = 5,
      Comment.articleId = 1 \<rparr>"

definition sampleDb :: Database where
  "sampleDb =
    \<lparr> users = [mkUser 1 ''root@gazeta.uz'' SUPER_ADMIN, mkUser 2 ''admin@gazeta.uz'' ADMIN,
               mkUser 3 ''editor@gazeta.uz'' EDITOR, mkUser 4 ''reporter@gazeta.uz'' REPORTER,
               mkUser 5 ''reader@gazeta.uz'' USER, mkUser 6 ''guest@gazeta.uz'' USER,
               mkUser 7 ''stringer@gazeta.uz'' REPORTER],
      categories = [\<lparr> Category.id = 1, Category.nameUz = ''Sport'', Category.nameRu = None,
                      Category.slug = ''sport'' \<rparr>],
      newspapers = [],
      articles = [sampleArticle],
      comments = [sampleComment],
      userSeq = 8 \<rparr>"

definition retitle :: UpdateArticleDto where
  "retitle =
    \<lparr> UpdateArticleDto.titleUz = Some ''Boshqa'', UpdateArticleDto.titleRu = None,
      UpdateArticleDto.contentUz = None, UpdateArticleDto.contentRu = None,
      UpdateArticleDto.slug = None, UpdateArticleDto.thumbnail = None,
      UpdateArticleDto.categoryId = None, UpdateArticleDto.authorId = None,
      UpdateArticleDto.isPublished = None, UpdateArticleDto.newspaperId = None \<rparr>"

text \<open>
  Stand-ins for the library functions in the concrete instances: a password hash with its
  comparison, the reading of the configured span, and a token signature.
\<close>

definition sampleHash :: "string \<Rightarrow> string" where
  "sampleHash plain = ''$2b$10$'' @ rev plain"

definition sampleCompare :: "string \<Rightarrow> string \<Rightarrow> bool" where
  "sampleCompare plain stored = (sampleHash plain = stored)"

definition sampleSeconds :: "string \<Rightarrow> nat" where
  "sampleSeconds span = (if span = ''60m'' then 3600 else 0)"

definition sampleMac :: "string \<Rightarrow> JwtPayload \<times> nat \<times> nat \<Rightarrow> string \<times> JwtPayload \<times> nat \<times> nat" where
  "sampleMac key content = (key, content)"

definition noConfig :: "string \<Rightarrow> string option" where
  "noConfig key = None"

definition adminSignup :: RegisterDto where
  "adminSignup =
    \<lparr> RegisterDto.email = ''intruder@gazeta.uz'', RegisterDto.fullName = ''In Truder'',
      RegisterDto.password = ''hunter22'', RegisterDto.avatar = None,
      RegisterDto.role = Some ADMIN \<rparr>"

definition newReader :: UserCreateInput where
  "newReader =
    \<lparr> UserCreateInput.email = ''new@gazeta.uz'', UserCreateInput.password = ''secret1'',
      UserCreateInput.fullName = ''New Reader'', UserCreateInput.avatar = None,
      UserCreateInput.role = USER \<rparr>"

definition roleOnly :: "Role \<Rightarrow> UserUpdateInput" where
  "roleOnly r =
    \<lparr> UserUpdateInput.email = None, UserUpdateInput.password = None,
      UserUpdateInput.fullName = None, UserUpdateInput.avatar = None,
      UserUpdateInput.role = Some r \<rparr>"

definition reword :: UpdateCommentDto where
  "reword = \<lparr> UpdateCommentDto.commentText = Some ''Juda foydali'', UpdateCommentDto.articleId = None \<rparr>"

text \<open>The database right after start-up: the seeded super admin and nothing else.\<close>

definition rootOnlyDb :: Database where
  "rootOnlyDb =
    \<lparr> users = [(mkUser 1 ''root@gazeta.uz'' SUPER_ADMIN)
                 \<lparr> User.password := sampleHash ''SuperAdmin123!'' \<rparr>],
      categories = [], newspapers = [], articles = [], comments = [], userSeq = 2 \<rparr>"

section \<open>Lemmas about the store\<close>

lemmas sample_defs = sampleDb_def mkUser_def sampleArticle_def sampleComment_def

lemma find_snoc_fresh: "find P xs = None \<Longrightarrow> P u \<Longrightarrow> find P (xs @ [u]) = Some u"
  by (induction xs) (auto split: if_splits)

lemma find_none_no_ex: "find P xs = None \<Longrightarrow> \<not> list_ex P xs"
  by (simp add: find_None_iff list_ex_iff)

lemma find_filter_out: "find P (filter (\<lambda>x. \<not> P x) xs) = None"
  by (simp add: find_None_iff)

lemma find_map_replace:
  "find P xs = Some c \<Longrightarrow> P c' \<Longrightarrow> find P (map (\<lambda>b. if P b then c' else b) xs) = Some c'"
  by (induction xs) (auto split: if_splits)

lemma prisma_user_create_fresh:
  assumes "prisma_user_findUnique_email db (UserCreateInput.email d) = None"
  shows "prisma_user_create db d =
    Inr (\<lparr> User.id = userSeq db, User.email = UserCreateInput.email d,
            User.password = UserCreateInput.password d, User.fullName = UserCreateInput.fullName d,
            User.avatar = UserCreateInput.avatar d, User.role = UserCreateInput.role d \<rparr>,
         db\<lparr> users := users db @ [\<lparr> User.id = userSeq db, User.email = UserCreateInput.email d,
            User.password = UserCreateInput.password d, User.fullName = UserCreateInput.fullName d,
            User.avatar = UserCreateInput.avatar d, User.role = UserCreateInput.role d \<rparr>],
             userSeq := userSeq db + 1 \<rparr>)"
  using assms find_none_no_ex[of "\<lambda>u. User.email u = UserCreateInput.email d" "users db"]
  by (simp add: prisma_user_create_def prisma_user_findUnique_email_def Let_def)



lemma prisma_comment_delete_found:
  "prisma_comment_findUnique db i = Some c \<Longrightarrow>
   prisma_comment_delete db i =
     Inr (db\<lparr> comments := filter (\<lambda>b. Comment.id b \<noteq> i) (comments db) \<rparr>)"
  by (simp add: prisma_comment_delete_def)

lemma prisma_comment_update_found:
  "prisma_comment_findUnique db i = Some c \<Longrightarrow>
   \<not> dangling (prisma_article_findUnique db) (UpdateCommentDto.articleId dto) \<Longrightarrow>
   prisma_comment_update db i dto =
     Inr (applyCommentUpdate dto c,
          db\<lparr> comments :=
                map (\<lambda>b. if Comment.id b = i then applyCommentUpdate dto c else b) (comments db) \<rparr>)"
  by (simp add: prisma_comment_update_def Let_def)

lemma prisma_comment_update_not_forbidden:
  "(case prisma_comment_update db i dto of
      Inl e \<Rightarrow> (Inl (catchPrisma what e), db)
    | Inr (c', db') \<Rightarrow> (Inr c', db')) = out \<Longrightarrow> \<not> forbidden out db"
  by (cases "prisma_comment_update db i dto" rule: sum.exhaust;
      cases "prisma_comment_findUnique db i")
     (auto simp: forbidden_def prisma_comment_update_def Let_def split: if_splits)

section \<open>Lemmas about the policy checks\<close>

lemma validateRoleCreation_iff:
  "(validateRoleCreation (Some a) t = Inr ()) = (t \<in> set (roleHierarchy a))"
  by (cases a; cases t; simp add: validateRoleCreation_def)

lemma validateRoleUpdate_iff:
  "(validateRoleUpdate a e n t r = Inr ()) =
     (a = SUPER_ADMIN \<and> e \<noteq> SUPER_ADMIN \<and> n \<noteq> SUPER_ADMIN \<and> t \<noteq> r)"
  by (simp add: validateRoleUpdate_def)

text \<open>
  A role change that \<^verbatim>\<open>UserService.update\<close> carries out has passed
  \<^verbatim>\<open>validateRoleUpdate\<close>.
\<close>

lemma update_role_change_guarded:
  assumes "prisma_user_findUnique_id db i = Some u"
    and "UserUpdateInput.role dto = Some n"
    and "n \<noteq> User.role u"
    and "fst (UserService_update hash db i dto rid a req) = Inr v"
  shows "validateRoleUpdate a (User.role u) n i rid = Inr ()"
  using assms
  by (cases "validateRoleUpdate a (User.role u) n i rid")
     (auto simp: UserService_update_def split: if_splits)

text \<open>
  Whoever is neither the author of an article nor an editor, admin or super admin gets the
  same answer from both article mutations, and the database stays as it was.
\<close>

lemma article_denial_unchanged:
  assumes "prisma_article_findUnique db i = Some a"
    and "r \<notin> {EDITOR, ADMIN, SUPER_ADMIN}"
    and "Article.authorId a \<noteq> uid"
  shows "ArticleService_update db i dto uid r req =
           (Inl (BadRequestException [Text ''You can only update your own articles'']), db)
       \<and> ArticleService_remove db i uid r =
           (Inl (BadRequestException [Text ''You can only delete your own articles'']), db)"
  using assms by (simp add: ArticleService_update_def ArticleService_remove_def)

section \<open>Role hierarchy: properties\<close>

text \<open>
  C1. No requesting role, and no absence of one, can assign the target role
  \<^verbatim>\<open>SUPER_ADMIN\<close>. On the creation path \<open>validateRoleCreation\<close> throws the
  exception of its first guard, the one placed before the hierarchy table is consulted
  (the message is not the one of the table lookup), and \<open>UserService_create\<close> ends with
  that exception and an untouched database. On the role-change path
  \<open>validateRoleUpdate\<close> throws the exception of its first guard, whatever the requesting
  role, the existing role and the two ids are, and \<open>UserService_update\<close> asked to make a
  stored user who is not a super admin into one ends with that exception and an untouched
  database.
\<close>

theorem super_admin_never_assignable:
  "validateRoleCreation R SUPER_ADMIN =
     Inl (ForbiddenException
            [Text ''SUPER_ADMIN cannot be created through regular user creation''])
   \<and> validateRoleUpdate A E SUPER_ADMIN targetUserId requestingUserId =
     Inl (ForbiddenException [Text ''Cannot update user to SUPER_ADMIN role''])
   \<and> UserService_create hash db (dto\<lparr> UserCreateInput.role := SUPER_ADMIN \<rparr>) rid R =
     (Inl (ForbiddenException
             [Text ''SUPER_ADMIN cannot be created through regular user creation'']), db)
   \<and> (prisma_user_findUnique_id db i = Some u \<and> User.role u \<noteq> SUPER_ADMIN \<longrightarrow>
        UserService_update hash db i (upd\<lparr> UserUpdateInput.role := Some SUPER_ADMIN \<rparr>)
          requestingUserId A req =
        (Inl (ForbiddenException [Text ''Cannot update user to SUPER_ADMIN role'']), db))"
  by (simp add: validateRoleCreation_def validateRoleUpdate_def UserService_create_def
      UserService_update_def)

theorem super_admin_never_assignable_witness:
  "prisma_user_findUnique_id sampleDb 2 = Some (mkUser 2 ''admin@gazeta.uz'' ADMIN)
   \<and> User.role (mkUser 2 ''admin@gazeta.uz'' ADMIN) \<noteq> SUPER_ADMIN
   \<and> UserService_update sampleHash sampleDb 2 (roleOnly SUPER_ADMIN) 1 SUPER_ADMIN None =
        (Inl (ForbiddenException [Text ''Cannot update user to SUPER_ADMIN role'']), sampleDb)"
proof -
  have fnd: "prisma_user_findUnique_id sampleDb 2 = Some (mkUser 2 ''admin@gazeta.uz'' ADMIN)"
    by (simp add: prisma_user_findUnique_id_def sample_defs)
  have upd: "(roleOnly USER)\<lparr> UserUpdateInput.role := Some SUPER_ADMIN \<rparr> = roleOnly SUPER_ADMIN"
    by (simp add: roleOnly_def)
  show ?thesis
    using fnd upd
      super_admin_never_assignable[where db = sampleDb and i = 2
        and u = "mkUser 2 ''admin@gazeta.uz'' ADMIN" and hash = sampleHash
        and upd = "roleOnly USER" and requestingUserId = 1 and A = SUPER_ADMIN and req = None]
    by (simp add: mkUser_def)
qed

text \<open>
  C2, as stated, fails: the pair (\<^verbatim>\<open>REPORTER\<close>, \<^verbatim>\<open>USER\<close>) is outside the table the
  specification prints, whose \<^verbatim>\<open>REPORTER\<close> row is empty, yet the check passes and
  \<open>UserService_create\<close> called with the role \<^verbatim>\<open>REPORTER\<close> creates the user.
\<close>

theorem reporter_row_counterexample:
  "USER \<notin> set (specHierarchy REPORTER)
   \<and> validateRoleCreation (Some REPORTER) USER = Inr ()
   \<and> fst (UserService_create sampleHash sampleDb newReader (Some 7) (Some REPORTER)) =
     Inr \<lparr> UserView.id = 8, UserView.email = ''new@gazeta.uz'',
           UserView.fullName = ''New Reader'', UserView.role = USER, UserView.avatar = None \<rparr>"
  by (simp add: validateRoleCreation_def UserService_create_def prisma_user_create_def
      newReader_def sample_defs withoutPassword_def Let_def)

text \<open>
  C2, amended. The check is default-deny over the table of the code, whose
  \<^verbatim>\<open>REPORTER\<close> row is \<^verbatim>\<open>['USER']\<close>: for every requesting role and every target
  role outside that role's row, \<open>UserService_create\<close> is denied as forbidden and the
  database is unchanged; the check passes exactly for the pairs of the table; a
  \<^verbatim>\<open>REPORTER\<close> passes it for \<^verbatim>\<open>USER\<close> only, and a \<^verbatim>\<open>USER\<close> for no role.
\<close>

theorem role_creation_default_deny:
  "(UserCreateInput.role dto \<notin> set (roleHierarchy a) \<longrightarrow>
      forbidden (UserService_create hash db dto rid (Some a)) db)
   \<and> ((validateRoleCreation (Some a) t = Inr ()) = (t \<in> set (roleHierarchy a)))
   \<and> ((validateRoleCreation (Some REPORTER) t = Inr ()) = (t = USER))
   \<and> validateRoleCreation (Some USER) t \<noteq> Inr ()"
proof (intro conjI impI)
  assume "UserCreateInput.role dto \<notin> set (roleHierarchy a)"
  then have "validateRoleCreation (Some a) (UserCreateInput.role dto) \<noteq> Inr ()"
    by (simp add: validateRoleCreation_iff)
  then show "forbidden (UserService_create hash db dto rid (Some a)) db"
    by (auto simp: UserService_create_def validateRoleCreation_def forbidden_def
        split: if_splits)
next
  show "(validateRoleCreation (Some a) t = Inr ()) = (t \<in> set (roleHierarchy a))"
    by (rule validateRoleCreation_iff)
  show "(validateRoleCreation (Some REPORTER) t = Inr ()) = (t = USER)"
    by (cases t; simp add: validateRoleCreation_def)
  show "validateRoleCreation (Some USER) t \<noteq> Inr ()"
    by (cases t; simp add: validateRoleCreation_def)
qed

theorem role_creation_default_deny_witness:
  "UserCreateInput.role (newReader\<lparr> UserCreateInput.role := EDITOR \<rparr>) \<notin> set (roleHierarchy REPORTER)
   \<and> forbidden (UserService_create sampleHash sampleDb
                  (newReader\<lparr> UserCreateInput.role := EDITOR \<rparr>) (Some 7) (Some REPORTER)) sampleDb"
  using role_creation_default_deny[of "newReader\<lparr> UserCreateInput.role := EDITOR \<rparr>"
      REPORTER sampleHash sampleDb "Some 7"]
  by simp

text \<open>
  C3. \<open>validateRoleUpdate\<close> lets a role change pass exactly when the requesting role is
  \<^verbatim>\<open>SUPER_ADMIN\<close>, the existing role of the target is not \<^verbatim>\<open>SUPER_ADMIN\<close>, the new
  role is not \<^verbatim>\<open>SUPER_ADMIN\<close> and the target is not the requesting user; the three
  instances of the specification come out as it says. And whenever
  \<open>UserService_update\<close> succeeds on a body that names a role different from the stored
  one, those four conditions held.
\<close>

theorem role_change_policy:
  "((validateRoleUpdate a e n targetUserId requestingUserId = Inr ()) =
      (a = SUPER_ADMIN \<and> e \<noteq> SUPER_ADMIN \<and> n \<noteq> SUPER_ADMIN \<and>
       targetUserId \<noteq> requestingUserId))
   \<and> validateRoleUpdate SUPER_ADMIN ADMIN EDITOR 2 1 = Inr ()
   \<and> validateRoleUpdate SUPER_ADMIN SUPER_ADMIN ADMIN 2 1 \<noteq> Inr ()
   \<and> validateRoleUpdate ADMIN EDITOR USER 3 2 \<noteq> Inr ()
   \<and> (prisma_user_findUnique_id db i = Some u \<and> UserUpdateInput.role dto = Some n' \<and>
       n' \<noteq> User.role u \<and>
       fst (UserService_update hash db i dto rid a' req) = Inr v \<longrightarrow>
         a' = SUPER_ADMIN \<and> User.role u \<noteq> SUPER_ADMIN \<and> n' \<noteq> SUPER_ADMIN \<and> i \<noteq> rid)"
  using update_role_change_guarded[of db i u dto n' hash rid a' req v]
  by (simp add: validateRoleUpdate_iff)

theorem role_change_policy_witness:
  "prisma_user_findUnique_id sampleDb 2 = Some (mkUser 2 ''admin@gazeta.uz'' ADMIN)
   \<and> UserUpdateInput.role (roleOnly EDITOR) = Some EDITOR
   \<and> EDITOR \<noteq> User.role (mkUser 2 ''admin@gazeta.uz'' ADMIN)
   \<and> fst (UserService_update sampleHash sampleDb 2 (roleOnly EDITOR) 1 SUPER_ADMIN None) =
        Inr (withoutPassword (mkUser 2 ''admin@gazeta.uz'' EDITOR))
   \<and> User.role (mkUser 2 ''admin@gazeta.uz'' ADMIN) \<noteq> SUPER_ADMIN \<and> (2::int) \<noteq> 1"
proof -
  have run: "fst (UserService_update sampleHash sampleDb 2 (roleOnly EDITOR) 1 SUPER_ADMIN None) =
        Inr (withoutPassword (mkUser 2 ''admin@gazeta.uz'' EDITOR))"
    by (simp add: UserService_update_def prisma_user_findUnique_id_def prisma_user_update_def
        applyUserUpdate_def validateRoleUpdate_def roleOnly_def truthyString_def orElse_def
        Let_def sample_defs)
  have fnd: "prisma_user_findUnique_id sampleDb 2 = Some (mkUser 2 ''admin@gazeta.uz'' ADMIN)"
    by (simp add: prisma_user_findUnique_id_def sample_defs)
  show ?thesis
    using run fnd
      role_change_policy[of SUPER_ADMIN ADMIN EDITOR 2 1 sampleDb 2
        "mkUser 2 ''admin@gazeta.uz'' ADMIN" "roleOnly EDITOR" EDITOR sampleHash 1 SUPER_ADMIN None
        "withoutPassword (mkUser 2 ''admin@gazeta.uz'' EDITOR)"]
    by (simp add: roleOnly_def mkUser_def)
qed

section \<open>Articles and comments: properties\<close>

text \<open>
  C4. A reporter (a role that the article routes admit) who is not the author of article 1
  asks to update it and to delete it. Both calls are refused and leave the database as it
  was, but the exception is a \<^verbatim>\<open>BadRequestException\<close>, status 400, not a
  \<^verbatim>\<open>ForbiddenException\<close>, status 403: the refusal is not surfaced as forbidden.
\<close>

theorem article_denial_is_bad_request:
  "ArticleService_update sampleDb 1 retitle 7 REPORTER None =
     (Inl (BadRequestException [Text ''You can only update your own articles'']), sampleDb)
   \<and> ArticleService_remove sampleDb 1 7 REPORTER =
     (Inl (BadRequestException [Text ''You can only delete your own articles'']), sampleDb)
   \<and> getStatus (BadRequestException [Text ''You can only update your own articles'']) = 400
   \<and> getStatus (BadRequestException [Text ''You can only delete your own articles'']) = 400
   \<and> \<not> forbidden (ArticleService_update sampleDb 1 retitle 7 REPORTER None) sampleDb
   \<and> \<not> forbidden (ArticleService_remove sampleDb 1 7 REPORTER) sampleDb"
  by (simp add: ArticleService_update_def ArticleService_remove_def
      prisma_article_findUnique_def forbidden_def sample_defs)

text \<open>
  C5, as stated, fails. User 1 is stored as \<^verbatim>\<open>SUPER_ADMIN\<close>, a role of the privileged
  set, and does not own comment 1. Asking for its deletion through
  \<^verbatim>\<open>DELETE comments/own/1\<close>, which passes \<^verbatim>\<open>'USER'\<close> to
  \<^verbatim>\<open>CommentService.remove\<close>, this caller is refused: the early return reads the passed
  role, and the second check admits the stored roles \<^verbatim>\<open>ADMIN\<close> and
  \<^verbatim>\<open>EDITOR\<close> only.
\<close>

theorem stored_super_admin_refused_counterexample:
  "prisma_comment_findUnique sampleDb 1 = Some sampleComment
   \<and> Comment.userId sampleComment \<noteq> 1
   \<and> map_option User.role (prisma_user_findUnique_id sampleDb 1) = Some SUPER_ADMIN
   \<and> SUPER_ADMIN \<in> {ADMIN, EDITOR, SUPER_ADMIN}
   \<and> CommentController_removeOwn sampleDb 1 \<lparr> RequestUser.id = 1, RequestUser.role = SUPER_ADMIN \<rparr>
       = (Inl (ForbiddenException [Text ''You can only delete your own comments'']), sampleDb)
   \<and> CommentService_remove sampleDb 1 1 USER
       = (Inl (ForbiddenException [Text ''You can only delete your own comments'']), sampleDb)"
  by (simp add: CommentController_removeOwn_def CommentService_remove_def
      prisma_comment_findUnique_def prisma_user_findUnique_id_def sample_defs)

text \<open>
  C5, amended. For a stored comment, with each role read where the code reads it:
  \<^item> an update is denied as forbidden (database unchanged) exactly when the caller is not the
    owner and the role stored for the caller is none of \<^verbatim>\<open>ADMIN\<close>, \<^verbatim>\<open>EDITOR\<close>,
    \<^verbatim>\<open>SUPER_ADMIN\<close> (a caller with no stored row has no such role);
  \<^item> a delete is denied as forbidden (database unchanged) exactly when the caller is not the
    owner, the role passed to the call is not \<^verbatim>\<open>SUPER_ADMIN\<close>, and the role stored for
    the caller is neither \<^verbatim>\<open>ADMIN\<close> nor \<^verbatim>\<open>EDITOR\<close>;
  \<^item> so the owner is never denied, whatever the roles are, and a call passing
    \<^verbatim>\<open>SUPER_ADMIN\<close> deletes any comment;
  \<^item> a delete that is not denied returns its success message and leaves the database with
    the comment removed, so that looking it up finds nothing;
  \<^item> an update that is not denied, with a body that does not move the comment to a missing
    article, returns the updated comment and leaves the database with that comment in the
    place of the old one, so that looking it up finds the updated comment.
\<close>

theorem comment_mutation_policy:
  assumes "prisma_comment_findUnique db i = Some c"
  shows "(forbidden (CommentService_update db i uid dto) db =
            (Comment.userId c \<noteq> uid \<and>
             map_option User.role (prisma_user_findUnique_id db uid)
               \<notin> {Some ADMIN, Some EDITOR, Some SUPER_ADMIN}))
       \<and> (forbidden (CommentService_remove db i uid r) db =
            (Comment.userId c \<noteq> uid \<and> r \<noteq> SUPER_ADMIN \<and>
             map_option User.role (prisma_user_findUnique_id db uid)
               \<notin> {Some ADMIN, Some EDITOR}))
       \<and> (Comment.userId c = uid \<longrightarrow>
            \<not> forbidden (CommentService_update db i uid dto) db
          \<and> \<not> forbidden (CommentService_remove db i uid r) db)
       \<and> \<not> forbidden (CommentService_remove db i uid SUPER_ADMIN) db
       \<and> (\<not> forbidden (CommentService_remove db i uid r) db \<longrightarrow>
            CommentService_remove db i uid r =
              (Inr ''Comment deleted successfully'',
               db\<lparr> comments := filter (\<lambda>b. Comment.id b \<noteq> i) (comments db) \<rparr>)
          \<and> prisma_comment_findUnique (snd (CommentService_remove db i uid r)) i = None)
       \<and> (\<not> forbidden (CommentService_update db i uid dto) db \<and>
          \<not> dangling (prisma_article_findUnique db) (UpdateCommentDto.articleId dto) \<longrightarrow>
            CommentService_update db i uid dto =
              (Inr (applyCommentUpdate dto c),
               db\<lparr> comments :=
                     map (\<lambda>b. if Comment.id b = i then applyCommentUpdate dto c else b)
                       (comments db) \<rparr>)
          \<and> prisma_comment_findUnique (snd (CommentService_update db i uid dto)) i
              = Some (applyCommentUpdate dto c))
       \<and> CommentController_update db i dto caller =
            CommentService_update db i (RequestUser.id caller) dto
       \<and> CommentController_remove db i caller =
            CommentService_remove db i (RequestUser.id caller) (RequestUser.role caller)
       \<and> CommentController_removeOwn db i caller =
            CommentService_remove db i (RequestUser.id caller) USER"
proof -
  let ?stored = "map_option User.role (prisma_user_findUnique_id db uid)"
  have upd_forb: "forbidden (CommentService_update db i uid dto) db =
      (Comment.userId c \<noteq> uid \<and> ?stored \<notin> {Some ADMIN, Some EDITOR, Some SUPER_ADMIN})"
    using assms
      prisma_comment_update_not_forbidden[where what = "''Comment already exists: ''"
        and db = db and i = i and dto = dto]
    by (cases "prisma_user_findUnique_id db uid")
       (auto simp: CommentService_update_def forbidden_def)
  have rem_forb: "\<And>r. forbidden (CommentService_remove db i uid r) db =
      (Comment.userId c \<noteq> uid \<and> r \<noteq> SUPER_ADMIN \<and> ?stored \<notin> {Some ADMIN, Some EDITOR})"
    using assms
    by (cases "prisma_user_findUnique_id db uid")
       (auto simp: CommentService_remove_def forbidden_def prisma_comment_delete_found)
  have rem_eff: "CommentService_remove db i uid r =
      (Inr ''Comment deleted successfully'',
       db\<lparr> comments := filter (\<lambda>b. Comment.id b \<noteq> i) (comments db) \<rparr>)"
    if "\<not> forbidden (CommentService_remove db i uid r) db"
    using assms that
    by (cases "prisma_user_findUnique_id db uid")
       (auto simp: CommentService_remove_def forbidden_def prisma_comment_delete_found
          split: if_splits)
  have rem_gone: "prisma_comment_findUnique (snd (CommentService_remove db i uid r)) i = None"
    if "\<not> forbidden (CommentService_remove db i uid r) db"
    using rem_eff[OF that] find_filter_out[of "\<lambda>b. Comment.id b = i" "comments db"]
    by (simp add: prisma_comment_findUnique_def)
  have idc: "Comment.id (applyCommentUpdate dto c) = i"
    using assms
    by (auto simp: prisma_comment_findUnique_def applyCommentUpdate_def find_Some_iff)
  have upd_eff: "CommentService_update db i uid dto =
      (Inr (applyCommentUpdate dto c),
       db\<lparr> comments :=
             map (\<lambda>b. if Comment.id b = i then applyCommentUpdate dto c else b) (comments db) \<rparr>)"
    if "\<not> forbidden (CommentService_update db i uid dto) db"
      and "\<not> dangling (prisma_article_findUnique db) (UpdateCommentDto.articleId dto)"
    using assms that
    by (cases "prisma_user_findUnique_id db uid")
       (auto simp: CommentService_update_def forbidden_def prisma_comment_update_found
          split: if_splits)
  have upd_found: "prisma_comment_findUnique (snd (CommentService_update db i uid dto)) i
      = Some (applyCommentUpdate dto c)"
    if "\<not> forbidden (CommentService_update db i uid dto) db"
      and "\<not> dangling (prisma_article_findUnique db) (UpdateCommentDto.articleId dto)"
    using upd_eff[OF that] assms idc
      find_map_replace[of "\<lambda>b. Comment.id b = i" "comments db" c "applyCommentUpdate dto c"]
    by (simp add: prisma_comment_findUnique_def)
  have own_ok: "\<not> forbidden (CommentService_update db i uid dto) db
      \<and> \<not> forbidden (CommentService_remove db i uid r) db"
    if "Comment.userId c = uid"
    using that upd_forb rem_forb[of r] by simp
  have super_ok: "\<not> forbidden (CommentService_remove db i uid SUPER_ADMIN) db"
    using rem_forb[of SUPER_ADMIN] by simp
  have routes: "CommentController_update db i dto caller =
            CommentService_update db i (RequestUser.id caller) dto
       \<and> CommentController_remove db i caller =
            CommentService_remove db i (RequestUser.id caller) (RequestUser.role caller)
       \<and> CommentController_removeOwn db i caller =
            CommentService_remove db i (RequestUser.id caller) USER"
    by (simp add: CommentController_update_def CommentController_remove_def
        CommentController_removeOwn_def)
  show ?thesis
  proof (intro conjI impI)
    show "forbidden (CommentService_update db i uid dto) db =
            (Comment.userId c \<noteq> uid \<and>
             ?stored \<notin> {Some ADMIN, Some EDITOR, Some SUPER_ADMIN})"
      by (rule upd_forb)
    show "forbidden (CommentService_remove db i uid r) db =
            (Comment.userId c \<noteq> uid \<and> r \<noteq> SUPER_ADMIN \<and>
             ?stored \<notin> {Some ADMIN, Some EDITOR})"
      by (rule rem_forb)
    show "\<not> forbidden (CommentService_remove db i uid SUPER_ADMIN) db"
      by (rule super_ok)
    show "CommentController_update db i dto caller =
            CommentService_update db i (RequestUser.id caller) dto"
      using routes by (rule conjunct1)
    show "CommentController_remove db i caller =
            CommentService_remove db i (RequestUser.id caller) (RequestUser.role caller)"
      using routes by (simp only:)
    show "CommentController_removeOwn db i caller =
            CommentService_remove db i (RequestUser.id caller) USER"
      using routes by (simp only:)
  next
    assume "Comment.userId c = uid"
    then show "\<not> forbidden (CommentService_update db i uid dto) db"
      and "\<not> forbidden (CommentService_remove db i uid r) db"
      using own_ok by simp_all
  next
    assume ok: "\<not> forbidden (CommentService_remove db i uid r) db"
    show "CommentService_remove db i uid r =
              (Inr ''Comment deleted successfully'',
               db\<lparr> comments := filter (\<lambda>b. Comment.id b \<noteq> i) (comments db) \<rparr>)"
      using ok by (rule rem_eff)
    show "prisma_comment_findUnique (snd (CommentService_remove db i uid r)) i = None"
      using ok by (rule rem_gone)
  next
    assume ok: "\<not> forbidden (CommentService_update db i uid dto) db \<and>
          \<not> dangling (prisma_article_findUnique db) (UpdateCommentDto.articleId dto)"
    show "CommentService_update db i uid dto =
              (Inr (applyCommentUpdate dto c),
               db\<lparr> comments :=
                     map (\<lambda>b. if Comment.id b = i then applyCommentUpdate dto c else b)
                       (comments db) \<rparr>)"
      using ok upd_eff by blast
    show "prisma_comment_findUnique (snd (CommentService_update db i uid dto)) i
              = Some (applyCommentUpdate dto c)"
      using ok upd_found by blast
  qed
qed

theorem comment_mutation_policy_witness:
  "prisma_comment_findUnique sampleDb 1 = Some sampleComment
   \<and> Comment.userId sampleComment = 5
   \<and> \<not> forbidden (CommentService_remove sampleDb 1 5 USER) sampleDb
   \<and> CommentService_remove sampleDb 1 5 USER =
       (Inr ''Comment deleted successfully'', sampleDb\<lparr> comments := [] \<rparr>)
   \<and> prisma_comment_findUnique (snd (CommentService_remove sampleDb 1 5 USER)) 1 = None
   \<and> \<not> forbidden (CommentService_update sampleDb 1 5 reword) sampleDb
   \<and> \<not> dangling (prisma_article_findUnique sampleDb) (UpdateCommentDto.articleId reword)
   \<and> CommentService_update sampleDb 1 5 reword =
       (Inr (sampleComment\<lparr> Comment.commentText := ''Juda foydali'' \<rparr>),
        sampleDb\<lparr> comments := [sampleComment\<lparr> Comment.commentText := ''Juda foydali'' \<rparr>] \<rparr>)
   \<and> prisma_comment_findUnique (snd (CommentService_update sampleDb 1 5 reword)) 1
       = Some (sampleComment\<lparr> Comment.commentText := ''Juda foydali'' \<rparr>)
   \<and> \<not> forbidden (CommentService_remove sampleDb 1 3 EDITOR) sampleDb
   \<and> CommentService_remove sampleDb 1 3 EDITOR =
       (Inr ''Comment deleted successfully'', sampleDb\<lparr> comments := [] \<rparr>)
   \<and> \<not> forbidden (CommentService_remove sampleDb 1 6 SUPER_ADMIN) sampleDb
   \<and> forbidden (CommentService_update sampleDb 1 6 reword) sampleDb
   \<and> forbidden (CommentService_remove sampleDb 1 6 USER) sampleDb"
proof -
  have c: "prisma_comment_findUnique sampleDb 1 = Some sampleComment"
    by (simp add: prisma_comment_findUnique_def sample_defs)
  have d: "\<not> dangling (prisma_article_findUnique sampleDb) (UpdateCommentDto.articleId reword)"
    by (simp add: dangling_def reword_def)
  have u3: "prisma_user_findUnique_id sampleDb 3 = Some (mkUser 3 ''editor@gazeta.uz'' EDITOR)"
    by (simp add: prisma_user_findUnique_id_def sample_defs)
  have u6: "prisma_user_findUnique_id sampleDb 6 = Some (mkUser 6 ''guest@gazeta.uz'' USER)"
    by (simp add: prisma_user_findUnique_id_def sample_defs)
  have own: "Comment.userId sampleComment = 5"
    by (simp add: sampleComment_def)
  have cs: "comments sampleDb = [sampleComment]" "Comment.id sampleComment = 1"
    by (simp_all add: sample_defs)
  have ap: "applyCommentUpdate reword sampleComment
      = sampleComment\<lparr> Comment.commentText := ''Juda foydali'' \<rparr>"
    by (simp add: applyCommentUpdate_def reword_def orElse_def sampleComment_def)
  show ?thesis
    using c d u3 u6 own cs ap
      comment_mutation_policy[OF c, of 5 reword USER]
      comment_mutation_policy[OF c, of 3 reword EDITOR]
      comment_mutation_policy[OF c, of 6 reword USER]
    by (simp add: mkUser_def)
qed

section \<open>Identities: properties\<close>



section \<open>Registration, login and tokens: properties\<close>

text \<open>
  C7. A registration whose email is not taken and whose role is \<^verbatim>\<open>SUPER_ADMIN\<close> ends
  with the \<^verbatim>\<open>ForbiddenException\<close> of the role guard and the database is the one it
  started from, so no identity is created; a registration whose email is taken ends with
  the \<^verbatim>\<open>ConflictException\<close> of the duplicate check, again with the database unchanged.
\<close>

theorem register_rejections:
  "(prisma_user_findUnique_email db (RegisterDto.email dto) = None \<and>
    RegisterDto.role dto = Some SUPER_ADMIN \<longrightarrow>
      AuthService_register hashPassword sign db dto =
        (Inl (ForbiddenException [Text ''Cannot register with SUPER_ADMIN role'']), db))
   \<and> (prisma_user_findUnique_email db (RegisterDto.email dto) \<noteq> None \<longrightarrow>
      AuthService_register hashPassword sign db dto =
        (Inl (ConflictException [Text ''User with this email already exists'']), db))"
  by (auto simp: AuthService_register_def)

theorem register_rejections_witness:
  "prisma_user_findUnique_email sampleDb
     (RegisterDto.email (adminSignup\<lparr> RegisterDto.role := Some SUPER_ADMIN \<rparr>)) = None
   \<and> RegisterDto.role (adminSignup\<lparr> RegisterDto.role := Some SUPER_ADMIN \<rparr>) = Some SUPER_ADMIN
   \<and> AuthService_register sampleHash JwtPayload.sub sampleDb
        (adminSignup\<lparr> RegisterDto.role := Some SUPER_ADMIN \<rparr>) =
        (Inl (ForbiddenException [Text ''Cannot register with SUPER_ADMIN role'']), sampleDb)
   \<and> prisma_user_findUnique_email sampleDb
        (RegisterDto.email (adminSignup\<lparr> RegisterDto.email := ''admin@gazeta.uz'' \<rparr>)) \<noteq> None
   \<and> AuthService_register sampleHash JwtPayload.sub sampleDb
        (adminSignup\<lparr> RegisterDto.email := ''admin@gazeta.uz'' \<rparr>) =
        (Inl (ConflictException [Text ''User with this email already exists'']), sampleDb)"
  using
    register_rejections[of sampleDb "adminSignup\<lparr> RegisterDto.role := Some SUPER_ADMIN \<rparr>"
      sampleHash JwtPayload.sub]
    register_rejections[of sampleDb "adminSignup\<lparr> RegisterDto.email := ''admin@gazeta.uz'' \<rparr>"
      sampleHash JwtPayload.sub]
  by (simp add: prisma_user_findUnique_email_def adminSignup_def sample_defs)

text \<open>
  C8. A login with an email nobody has and a login with a stored email and a password that
  fails the comparison return the same thing: the \<^verbatim>\<open>UnauthorizedException\<close> with the
  message \<^verbatim>\<open>Invalid credentials\<close>, and the database untouched.
\<close>

theorem login_failures_indistinguishable:
  assumes "prisma_user_findUnique_email db (LoginDto.email unknown) = None"
    and "prisma_user_findUnique_email db (LoginDto.email wrong) = Some u"
    and "\<not> compare (LoginDto.password wrong) (User.password u)"
  shows "AuthService_login compare sign db unknown = AuthService_login compare sign db wrong
    \<and> AuthService_login compare sign db unknown =
        (Inl (UnauthorizedException [Text ''Invalid credentials'']), db)"
  using assms by (simp add: AuthService_login_def)

theorem login_failures_indistinguishable_witness:
  "prisma_user_findUnique_email sampleDb
     (LoginDto.email \<lparr> LoginDto.email = ''nobody@gazeta.uz'', LoginDto.password = ''guess123'' \<rparr>)
     = None
   \<and> prisma_user_findUnique_email sampleDb
       (LoginDto.email \<lparr> LoginDto.email = ''admin@gazeta.uz'', LoginDto.password = ''guess123'' \<rparr>)
     = Some (mkUser 2 ''admin@gazeta.uz'' ADMIN)
   \<and> \<not> sampleCompare
         (LoginDto.password \<lparr> LoginDto.email = ''admin@gazeta.uz'', LoginDto.password = ''guess123'' \<rparr>)
         (User.password (mkUser 2 ''admin@gazeta.uz'' ADMIN))
   \<and> AuthService_login sampleCompare JwtPayload.sub sampleDb
        \<lparr> LoginDto.email = ''nobody@gazeta.uz'', LoginDto.password = ''guess123'' \<rparr>
      = AuthService_login sampleCompare JwtPayload.sub sampleDb
        \<lparr> LoginDto.email = ''admin@gazeta.uz'', LoginDto.password = ''guess123'' \<rparr>"
proof -
  let ?a = "\<lparr> LoginDto.email = ''nobody@gazeta.uz'', LoginDto.password = ''guess123'' \<rparr>"
  let ?b = "\<lparr> LoginDto.email = ''admin@gazeta.uz'', LoginDto.password = ''guess123'' \<rparr>"
  have h1: "prisma_user_findUnique_email sampleDb (LoginDto.email ?a) = None"
    by (simp add: prisma_user_findUnique_email_def sample_defs)
  have h2: "prisma_user_findUnique_email sampleDb (LoginDto.email ?b)
      = Some (mkUser 2 ''admin@gazeta.uz'' ADMIN)"
    by (simp add: prisma_user_findUnique_email_def sample_defs)
  have h3: "\<not> sampleCompare (LoginDto.password ?b) (User.password (mkUser 2 ''admin@gazeta.uz'' ADMIN))"
    by (simp add: mkUser_def sampleCompare_def sampleHash_def)
  show ?thesis
    using h1 h2 h3
      login_failures_indistinguishable[of sampleDb ?a ?b "mkUser 2 ''admin@gazeta.uz'' ADMIN"
        sampleCompare JwtPayload.sub, OF h1 h2 h3]
    by simp
qed

text \<open>
  C9. A token issued at time \<open>now\<close> for a payload and verified at any time up to its
  expiry yields the subject id and the role of that payload. In particular, whenever
  \<open>AuthService_login\<close> or \<open>AuthService_register\<close> succeeds with this issuer as its
  \<open>sign\<close>, verifying the returned token before expiry yields the id and the role of the
  returned user.
\<close>

theorem token_round_trip:
  assumes "t \<le> now + seconds (expiresIn options)"
  shows "TokenService_verify mac options t
           (TokenService_issue mac seconds options now
              \<lparr> JwtPayload.sub = i, JwtPayload.email = e, JwtPayload.role = r \<rparr>)
         = Inr \<lparr> IdentityClaim.sub = i, IdentityClaim.role = r \<rparr>
       \<and> (fst (AuthService_login compare (TokenService_issue mac seconds options now) db loginDto)
            = Inr res \<longrightarrow>
          TokenService_verify mac options t (access_token res)
            = Inr \<lparr> IdentityClaim.sub = UserView.id (user res),
                    IdentityClaim.role = UserView.role (user res) \<rparr>)
       \<and> (fst (AuthService_register hashPassword (TokenService_issue mac seconds options now)
                 db registerDto) = Inr res' \<longrightarrow>
          TokenService_verify mac options t (access_token res')
            = Inr \<lparr> IdentityClaim.sub = UserView.id (user res'),
                    IdentityClaim.role = UserView.role (user res') \<rparr>)"
  using assms
  by (auto simp: TokenService_verify_def TokenService_issue_def AuthService_login_def
      AuthService_register_def Let_def withoutPassword_def split: option.splits sum.splits
      if_splits)

theorem token_round_trip_witness:
  "(4600::nat) \<le> 1000 + sampleSeconds (expiresIn (useFactory noConfig))
   \<and> fst (AuthService_login sampleCompare
            (TokenService_issue sampleMac sampleSeconds (useFactory noConfig) 1000)
            rootOnlyDb
            \<lparr> LoginDto.email = ''root@gazeta.uz'', LoginDto.password = ''SuperAdmin123!'' \<rparr>)
       = Inr \<lparr> user = withoutPassword (mkUser 1 ''root@gazeta.uz'' SUPER_ADMIN),
               access_token =
                 TokenService_issue sampleMac sampleSeconds (useFactory noConfig) 1000
                   \<lparr> JwtPayload.sub = 1, JwtPayload.email = ''root@gazeta.uz'',
                     JwtPayload.role = SUPER_ADMIN \<rparr> \<rparr>
   \<and> TokenService_verify sampleMac (useFactory noConfig) 4600
        (TokenService_issue sampleMac sampleSeconds (useFactory noConfig) 1000
           \<lparr> JwtPayload.sub = 1, JwtPayload.email = ''root@gazeta.uz'',
             JwtPayload.role = SUPER_ADMIN \<rparr>)
       = Inr \<lparr> IdentityClaim.sub = 1, IdentityClaim.role = SUPER_ADMIN \<rparr>
   \<and> fst (AuthService_register sampleHash
            (TokenService_issue sampleMac sampleSeconds (useFactory noConfig) 1000)
            sampleDb adminSignup)
       = Inr \<lparr> user = \<lparr> UserView.id = 8, UserView.email = ''intruder@gazeta.uz'',
                        UserView.fullName = ''In Truder'', UserView.role = ADMIN,
                        UserView.avatar = None \<rparr>,
               access_token =
                 TokenService_issue sampleMac sampleSeconds (useFactory noConfig) 1000
                   \<lparr> JwtPayload.sub = 8, JwtPayload.email = ''intruder@gazeta.uz'',
                     JwtPayload.role = ADMIN \<rparr> \<rparr>
   \<and> TokenService_verify sampleMac (useFactory noConfig) 4600
        (TokenService_issue sampleMac sampleSeconds (useFactory noConfig) 1000
           \<lparr> JwtPayload.sub = 8, JwtPayload.email = ''intruder@gazeta.uz'',
             JwtPayload.role = ADMIN \<rparr>)
       = Inr \<lparr> IdentityClaim.sub = 8, IdentityClaim.role = ADMIN \<rparr>"
proof -
  have h: "(4600::nat) \<le> 1000 + sampleSeconds (expiresIn (useFactory noConfig))"
    by (simp add: sampleSeconds_def useFactory_def noConfig_def truthyString_def)
  have run: "fst (AuthService_login sampleCompare
            (TokenService_issue sampleMac sampleSeconds (useFactory noConfig) 1000)
            rootOnlyDb
            \<lparr> LoginDto.email = ''root@gazeta.uz'', LoginDto.password = ''SuperAdmin123!'' \<rparr>)
       = Inr \<lparr> user = withoutPassword (mkUser 1 ''root@gazeta.uz'' SUPER_ADMIN),
               access_token =
                 TokenService_issue sampleMac sampleSeconds (useFactory noConfig) 1000
                   \<lparr> JwtPayload.sub = 1, JwtPayload.email = ''root@gazeta.uz'',
                     JwtPayload.role = SUPER_ADMIN \<rparr> \<rparr>"
    by (simp add: AuthService_login_def prisma_user_findUnique_email_def sampleCompare_def
        withoutPassword_def mkUser_def rootOnlyDb_def Let_def)
  have reg: "fst (AuthService_register sampleHash
            (TokenService_issue sampleMac sampleSeconds (useFactory noConfig) 1000)
            sampleDb adminSignup)
       = Inr \<lparr> user = \<lparr> UserView.id = 8, UserView.email = ''intruder@gazeta.uz'',
                        UserView.fullName = ''In Truder'', UserView.role = ADMIN,
                        UserView.avatar = None \<rparr>,
               access_token =
                 TokenService_issue sampleMac sampleSeconds (useFactory noConfig) 1000
                   \<lparr> JwtPayload.sub = 8, JwtPayload.email = ''intruder@gazeta.uz'',
                     JwtPayload.role = ADMIN \<rparr> \<rparr>"
    by (simp add: AuthService_register_def prisma_user_findUnique_email_def
        prisma_user_create_def adminSignup_def orElse_def withoutPassword_def Let_def
        sample_defs)
  show ?thesis
    using h run reg
      token_round_trip[where t = 4600 and now = 1000 and seconds = sampleSeconds
        and options = "useFactory noConfig" and mac = sampleMac and i = 1
        and e = "''root@gazeta.uz''" and r = SUPER_ADMIN and compare = sampleCompare
        and db = rootOnlyDb
        and loginDto = "\<lparr> LoginDto.email = ''root@gazeta.uz'',
                          LoginDto.password = ''SuperAdmin123!'' \<rparr>"]
      token_round_trip[where t = 4600 and now = 1000 and seconds = sampleSeconds
        and options = "useFactory noConfig" and mac = sampleMac and i = 8
        and e = "''intruder@gazeta.uz''" and r = ADMIN and hashPassword = sampleHash
        and db = sampleDb and registerDto = adminSignup]
    by simp
qed

text \<open>
  C10. The public registration accepts every role but \<^verbatim>\<open>SUPER_ADMIN\<close>: with a fresh
  email and a supplied role among \<^verbatim>\<open>ADMIN\<close>, \<^verbatim>\<open>EDITOR\<close>, \<^verbatim>\<open>REPORTER\<close> and
  \<^verbatim>\<open>USER\<close>, \<open>AuthService_register\<close> succeeds, the returned user carries the supplied
  role, and the row stored under that email carries it too.
\<close>

theorem register_accepts_lower_roles:
  assumes "prisma_user_findUnique_email db (RegisterDto.email dto) = None"
    and "RegisterDto.role dto = Some r"
    and "r \<in> {ADMIN, EDITOR, REPORTER, USER}"
  shows "(case fst (AuthService_register hashPassword sign db dto) of
            Inl e \<Rightarrow> False
          | Inr res \<Rightarrow>
              UserView.role (user res) = r \<and> UserView.email (user res) = RegisterDto.email dto)
    \<and> map_option User.role
         (prisma_user_findUnique_email (snd (AuthService_register hashPassword sign db dto))
            (RegisterDto.email dto)) = Some r"
proof -
  have ne: "r \<noteq> SUPER_ADMIN" using assms(3) by auto
  let ?d = "\<lparr> UserCreateInput.email = RegisterDto.email dto,
              UserCreateInput.password = hashPassword (RegisterDto.password dto),
              UserCreateInput.fullName = RegisterDto.fullName dto,
              UserCreateInput.avatar = RegisterDto.avatar dto,
              UserCreateInput.role = r \<rparr>"
  have fresh: "prisma_user_findUnique_email db (UserCreateInput.email ?d) = None"
    using assms(1) by simp
  have fnd: "find (\<lambda>u. User.email u = RegisterDto.email dto) (users db) = None"
    using assms(1) by (simp add: prisma_user_findUnique_email_def)
  show ?thesis
    using assms(1,2) ne prisma_user_create_fresh[OF fresh] find_snoc_fresh[OF fnd]
    by (simp add: AuthService_register_def orElse_def Let_def withoutPassword_def
        prisma_user_findUnique_email_def)
qed

theorem register_accepts_lower_roles_witness:
  "prisma_user_findUnique_email sampleDb (RegisterDto.email adminSignup) = None
   \<and> RegisterDto.role adminSignup = Some ADMIN
   \<and> ADMIN \<in> {ADMIN, EDITOR, REPORTER, USER}
   \<and> (case fst (AuthService_register sampleHash JwtPayload.sub sampleDb adminSignup) of
         Inl e \<Rightarrow> False
       | Inr res \<Rightarrow>
           UserView.role (user res) = ADMIN
           \<and> UserView.email (user res) = RegisterDto.email adminSignup)
   \<and> map_option User.role
         (prisma_user_findUnique_email
            (snd (AuthService_register sampleHash JwtPayload.sub sampleDb adminSignup))
            (RegisterDto.email adminSignup)) = Some ADMIN"
proof -
  have h1: "prisma_user_findUnique_email sampleDb (RegisterDto.email adminSignup) = None"
    by (simp add: prisma_user_findUnique_email_def adminSignup_def sample_defs)
  have h2: "RegisterDto.role adminSignup = Some ADMIN" by (simp add: adminSignup_def)
  have h3: "ADMIN \<in> {ADMIN, EDITOR, REPORTER, USER}" by simp
  show ?thesis
    using h1 h2 h3 register_accepts_lower_roles[OF h1 h2 h3, of sampleHash JwtPayload.sub]
    by simp
qed

end
